theory Spec2Isabelle
  imports Main "HOL-Library.Word"
begin

section \<open>Python values used by \<^verbatim>\<open>pubsub_logging/utils.py\<close>\<close>

text \<open>
  A Python 3 \<^verbatim>\<open>str\<close> is a sequence of Unicode code points, a \<^verbatim>\<open>bytes\<close> object a
  sequence of octets. String literals of the source are written with \<open>lit\<close>.
\<close>

type_synonym pystr = "nat list"
type_synonym byte = "8 word"
type_synonym bytes = "byte list"

definition lit :: "string \<Rightarrow> pystr" where
  "lit s = map of_char s"

text \<open>
  A raised exception, as far as the module looks at it: its class, whether the class
  derives from \<^verbatim>\<open>Exception\<close> (what \<^verbatim>\<open>except Exception\<close> tests; \<^verbatim>\<open>SystemExit\<close>,
  \<^verbatim>\<open>KeyboardInterrupt\<close> and \<^verbatim>\<open>GeneratorExit\<close> do not), the text \<^verbatim>\<open>str(e)\<close>, and its
  \<^verbatim>\<open>__context__\<close>: the exception that was being handled when this one was raised.
\<close>

datatype exn =
  Exn (exn_class: string) (is_Exception: bool) (exn_str: pystr) (exn_context: "exn option")

text \<open>
  The module is modelled as Python 3 runs it. There, an exception raised by a
  \<^verbatim>\<open>raise\<close> statement inside an \<^verbatim>\<open>except\<close> block gets the exception being handled as its
  \<^verbatim>\<open>__context__\<close>; a bare \<^verbatim>\<open>raise\<close> re-raises the handled exception as it is.
\<close>

definition raise_in_handler :: "exn \<Rightarrow> exn \<Rightarrow> exn" where
  "raise_in_handler new handled =
     Exn (exn_class new) (is_Exception new) (exn_str new) (Some handled)"

text \<open>
  Modelled from the spec: \<^verbatim>\<open>pubsub_logging.errors.RecoverableError\<close> is imported by
  the module and its defining file is not among the sources. The spec calls it a
  dedicated marker error type; the source constructs it with no arguments, so its text
  is empty. \<open>RecoverableError\<close> is the object as \<^verbatim>\<open>RecoverableError()\<close> constructs it.
\<close>

definition RecoverableError :: exn where
  "RecoverableError = Exn ''RecoverableError'' True [] None"

datatype pyval =
    PNone
  | PBool bool
  | PInt int
  | PStr pystr
  | PList "pyval list"
  | PDict "(pyval \<times> pyval) list"
  | PObject string
  | PRaising string exn

subsection \<open>The operator \<^verbatim>\<open>needle in haystack\<close> on strings\<close>

fun startswith :: "'a list \<Rightarrow> 'a list \<Rightarrow> bool" where
  "startswith hs [] = True"
| "startswith [] (n # ns) = False"
| "startswith (h # hs) (n # ns) = (h = n \<and> startswith hs ns)"

fun py_in :: "'a list \<Rightarrow> 'a list \<Rightarrow> bool" where
  "py_in ns [] = (ns = [])"
| "py_in ns (h # hs) = (startswith (h # hs) ns \<or> py_in ns hs)"

subsection \<open>Rendering numbers in error messages\<close>

fun dec :: "nat \<Rightarrow> pystr" where
  "dec n = (if n < 10 then [48 + n] else dec (n div 10) @ [48 + n mod 10])"

definition hexdigit :: "nat \<Rightarrow> nat" where
  "hexdigit d = (if d < 10 then 48 + d else 87 + d)"

definition hex4 :: "nat \<Rightarrow> pystr" where
  "hex4 c = [hexdigit (c div 4096 mod 16), hexdigit (c div 256 mod 16),
             hexdigit (c div 16 mod 16), hexdigit (c mod 16)]"

subsection \<open>\<^verbatim>\<open>str.encode()\<close>: UTF-8, error handler \<^verbatim>\<open>strict\<close>\<close>

definition is_surrogate :: "nat \<Rightarrow> bool" where
  "is_surrogate c = (0xD800 \<le> c \<and> c \<le> 0xDFFF)"

definition utf8_char :: "nat \<Rightarrow> bytes" where
  "utf8_char c =
    (if c < 0x80 then [of_nat c]
     else if c < 0x800 then
       [of_nat (0xC0 + c div 64), of_nat (0x80 + c mod 64)]
     else if c < 0x10000 then
       [of_nat (0xE0 + c div 4096), of_nat (0x80 + c div 64 mod 64),
        of_nat (0x80 + c mod 64)]
     else
       [of_nat (0xF0 + c div 262144), of_nat (0x80 + c div 4096 mod 64),
        of_nat (0x80 + c div 64 mod 64), of_nat (0x80 + c mod 64)])"

text \<open>
  The encoder reports the whole run of consecutive surrogates that starts at the first
  offending position.
\<close>

definition codec_prefix :: pystr where
  "codec_prefix = [39] @ lit ''utf-8'' @ [39] @ lit '' codec can'' @ [39] @ lit ''t encode ''"

definition UnicodeEncodeError :: "nat \<Rightarrow> pystr \<Rightarrow> exn" where
  "UnicodeEncodeError pos rest =
    (let n = length (takeWhile is_surrogate rest) in
     Exn ''UnicodeEncodeError'' True
       (if n = 1 then
          codec_prefix @ lit ''character '' @ [39, 92, 117] @ hex4 (hd rest) @ [39]
          @ lit '' in position '' @ dec pos @ lit '': surrogates not allowed''
        else
          codec_prefix @ lit ''characters in position '' @ dec pos
          @ lit ''-'' @ dec (pos + n - 1) @ lit '': surrogates not allowed'')
       None)"

fun str_encode_from :: "nat \<Rightarrow> pystr \<Rightarrow> exn + bytes" where
  "str_encode_from i [] = Inr []"
| "str_encode_from i (c # cs) =
    (if is_surrogate c then Inl (UnicodeEncodeError i (c # cs))
     else case str_encode_from (Suc i) cs of
            Inl e \<Rightarrow> Inl e
          | Inr bs \<Rightarrow> Inr (utf8_char c @ bs))"

definition str_encode :: "pystr \<Rightarrow> exn + bytes" where
  "str_encode s = str_encode_from 0 s"

section \<open>The publisher client and the calls made to it\<close>

text \<open>
  The client is an object of the message-bus library. Its two methods used here may
  depend on and change the library's state \<open>'s\<close>, and either returns or raises.
  \<open>'f\<close> is the type of the future that \<^verbatim>\<open>publish\<close> returns.
\<close>

record ('s, 'f) client =
  topic_path :: "pystr \<Rightarrow> pystr \<Rightarrow> 's \<Rightarrow> (exn + pystr) \<times> 's"
  publish :: "pystr \<Rightarrow> bytes \<Rightarrow> 's \<Rightarrow> (exn + 'f) \<times> 's"

text \<open>What a call of this module does to the outside, in order.\<close>

datatype event =
    CallTopicPath pystr pystr
  | CallPublish pystr bytes
  | PrintExc exn

fun is_CallPublish :: "event \<Rightarrow> bool" where
  "is_CallPublish (CallPublish p d) = True"
| "is_CallPublish (CallTopicPath q t) = False"
| "is_CallPublish (PrintExc e) = False"

section \<open>\<^verbatim>\<open>get_pubsub_client\<close>\<close>

text \<open>
  The module's global \<^verbatim>\<open>published_client\<close> is bound once, when the module is
  imported, to the result of the library's constructor.
\<close>

record 'c module_state =
  published_client :: 'c

definition import_module :: "('s \<Rightarrow> (exn + 'c) \<times> 's) \<Rightarrow> 's \<Rightarrow> (exn + 'c module_state) \<times> 's" where
  "import_module PublisherClient s =
    (case PublisherClient s of
       (Inl e, s') \<Rightarrow> (Inl e, s')
     | (Inr c, s') \<Rightarrow> (Inr \<lparr>published_client = c\<rparr>, s'))"

definition get_pubsub_client ::
  "'h option \<Rightarrow> 'k option \<Rightarrow> 'c module_state \<Rightarrow> (exn + 'c) \<times> 'c module_state \<times> event list" where
  "get_pubsub_client http credentials m = (Inr (published_client m), m, [])"

section \<open>\<^verbatim>\<open>check_topic\<close>\<close>

text \<open>
  \<^verbatim>\<open>traceback.print_exc(file=sys.stderr)\<close> is the standard library's and is taken as
  the parameter \<open>print_exc\<close>: given the exception being handled and the state, it writes
  and returns, or raises (a closed or missing \<^verbatim>\<open>sys.stderr\<close>). It is called inside the
  handler, so what it raises leaves \<^verbatim>\<open>check_topic\<close> before \<^verbatim>\<open>return False\<close>.
\<close>

definition check_topic ::
  "('s, 'f) client \<Rightarrow> (exn \<Rightarrow> 's \<Rightarrow> (exn + unit) \<times> 's) \<Rightarrow> pystr \<Rightarrow> pystr \<Rightarrow> 's
     \<Rightarrow> (exn + bool) \<times> 's \<times> event list" where
  "check_topic client print_exc project_id topic s =
    (case topic_path client project_id topic s of
       (Inr tp, s1) \<Rightarrow> (Inr True, s1, [CallTopicPath project_id topic])
     | (Inl e, s1) \<Rightarrow>
         if is_Exception e then
           (case print_exc e s1 of
              (Inr u, s2) \<Rightarrow> (Inr False, s2, [CallTopicPath project_id topic, PrintExc e])
            | (Inl e2, s2) \<Rightarrow> (Inl e2, s2, [CallTopicPath project_id topic, PrintExc e]))
         else (Inl e, s1, [CallTopicPath project_id topic]))"

section \<open>\<^verbatim>\<open>publish_body\<close>\<close>

text \<open>
  The body of the \<^verbatim>\<open>try\<close> block. \<^verbatim>\<open>json.dumps\<close> is the standard library's and is
  taken as the parameter \<open>dumps\<close>; the arguments of \<^verbatim>\<open>client.publish\<close> are evaluated
  before the call.
\<close>

definition publish_body_try ::
  "('s, 'f) client \<Rightarrow> ('p \<Rightarrow> exn + pystr) \<Rightarrow> 'p \<Rightarrow> pystr \<Rightarrow> pystr \<Rightarrow> 's
     \<Rightarrow> (exn + 'f) \<times> 's \<times> event list" where
  "publish_body_try client dumps body project_id topic s =
    (case topic_path client project_id topic s of
       (Inl e, s1) \<Rightarrow> (Inl e, s1, [CallTopicPath project_id topic])
     | (Inr tp, s1) \<Rightarrow>
         (case dumps body of
            Inl e \<Rightarrow> (Inl e, s1, [CallTopicPath project_id topic])
          | Inr js \<Rightarrow>
              (case str_encode js of
                 Inl e \<Rightarrow> (Inl e, s1, [CallTopicPath project_id topic])
               | Inr data \<Rightarrow>
                   (case publish client tp data s1 of
                      (r, s2) \<Rightarrow>
                        (r, s2, [CallTopicPath project_id topic, CallPublish tp data])))))"

text \<open>
  The handler \<^verbatim>\<open>except Exception as e\<close>: an exception that does not derive from
  \<^verbatim>\<open>Exception\<close> passes through it; the bare \<^verbatim>\<open>raise\<close> re-raises \<open>e\<close> itself;
  \<^verbatim>\<open>raise RecoverableError()\<close> raises a new object while \<open>e\<close> is being handled. A call
  that falls off the end of the function returns \<^verbatim>\<open>None\<close>.
\<close>

definition publish_body ::
  "('s, 'f) client \<Rightarrow> ('p \<Rightarrow> exn + pystr) \<Rightarrow> 'p \<Rightarrow> pystr \<Rightarrow> pystr \<Rightarrow> 's
     \<Rightarrow> (exn + pyval) \<times> 's \<times> event list" where
  "publish_body client dumps body project_id topic s =
    (case publish_body_try client dumps body project_id topic s of
       (Inr fut, s', evs) \<Rightarrow> (Inr PNone, s', evs)
     | (Inl e, s', evs) \<Rightarrow>
         if is_Exception e then
           (let err_str = exn_str e in
            if \<not> py_in (lit ''200'') err_str then (Inl e, s', evs)
            else (Inl (raise_in_handler RecoverableError e), s', evs))
         else (Inl e, s', evs))"

section \<open>\<^verbatim>\<open>json.dumps\<close> on a fragment of Python values\<close>

text \<open>
  The standard library's encoder with its default options (\<^verbatim>\<open>ensure_ascii=True\<close>,
  separators \<^verbatim>\<open>', '\<close> and \<^verbatim>\<open>': '\<close>, no \<^verbatim>\<open>default\<close> hook), on \<^verbatim>\<open>None\<close>, booleans,
  integers, strings, lists and dicts (as their items in insertion order). \<open>PObject c\<close>
  stands for an instance of a class \<open>c\<close> that the encoder does not know, and
  \<open>PRaising c e\<close> for a non-empty instance of a dict subclass \<open>c\<close> whose \<^verbatim>\<open>items()\<close>
  raises \<open>e\<close>: the encoder calls \<^verbatim>\<open>items()\<close> and the exception leaves \<^verbatim>\<open>json.dumps\<close>.
\<close>

definition TypeError :: "pystr \<Rightarrow> exn" where
  "TypeError msg = Exn ''TypeError'' True msg None"

definition dec_int :: "int \<Rightarrow> pystr" where
  "dec_int i = (if i < 0 then 45 # dec (nat (- i)) else dec (nat i))"

definition json_escape_char :: "nat \<Rightarrow> pystr" where
  "json_escape_char c =
    (if c = 34 then [92, 34]
     else if c = 92 then [92, 92]
     else if c = 10 then [92, 110]
     else if c = 13 then [92, 114]
     else if c = 9 then [92, 116]
     else if c = 12 then [92, 102]
     else if c = 8 then [92, 98]
     else if 32 \<le> c \<and> c \<le> 126 then [c]
     else if c < 0x10000 then [92, 117] @ hex4 c
     else [92, 117] @ hex4 (0xD800 + (c - 0x10000) div 1024)
        @ [92, 117] @ hex4 (0xDC00 + (c - 0x10000) mod 1024))"

definition json_string :: "pystr \<Rightarrow> pystr" where
  "json_string s = [34] @ concat (map json_escape_char s) @ [34]"

fun join :: "pystr \<Rightarrow> pystr list \<Rightarrow> pystr" where
  "join sep [] = []"
| "join sep [x] = x"
| "join sep (x # y # ys) = x @ sep @ join sep (y # ys)"

fun class_name :: "pyval \<Rightarrow> string" where
  "class_name PNone = ''NoneType''"
| "class_name (PBool b) = ''bool''"
| "class_name (PInt i) = ''int''"
| "class_name (PStr s) = ''str''"
| "class_name (PList xs) = ''list''"
| "class_name (PDict kvs) = ''dict''"
| "class_name (PObject c) = c"
| "class_name (PRaising c e) = c"

fun json_key :: "pyval \<Rightarrow> exn + pystr" where
  "json_key (PStr s) = Inr s"
| "json_key PNone = Inr (lit ''null'')"
| "json_key (PBool b) = Inr (if b then lit ''true'' else lit ''false'')"
| "json_key (PInt i) = Inr (dec_int i)"
| "json_key k =
     Inl (TypeError (lit ''keys must be str, int, float, bool or None, not '' @ lit (class_name k)))"

text \<open>The first element that fails decides, as in the encoder's left-to-right loop.\<close>

fun sequence :: "(exn + 'a) list \<Rightarrow> exn + 'a list" where
  "sequence [] = Inr []"
| "sequence (Inl e # rs) = Inl e"
| "sequence (Inr x # rs) = (case sequence rs of Inl e \<Rightarrow> Inl e | Inr xs \<Rightarrow> Inr (x # xs))"

fun json_dumps :: "pyval \<Rightarrow> exn + pystr" where
  "json_dumps PNone = Inr (lit ''null'')"
| "json_dumps (PBool b) = Inr (if b then lit ''true'' else lit ''false'')"
| "json_dumps (PInt i) = Inr (dec_int i)"
| "json_dumps (PStr s) = Inr (json_string s)"
| "json_dumps (PList xs) =
     (case sequence (map json_dumps xs) of
        Inl e \<Rightarrow> Inl e
      | Inr ps \<Rightarrow> Inr (lit ''['' @ join (lit '', '') ps @ lit '']''))"
| "json_dumps (PDict kvs) =
     (case sequence (map (\<lambda>(k, v).
              case json_key k of
                Inl e \<Rightarrow> Inl e
              | Inr ks \<Rightarrow>
                  (case json_dumps v of
                     Inl e \<Rightarrow> Inl e
                   | Inr p \<Rightarrow> Inr (json_string ks @ lit '': '' @ p))) kvs) of
        Inl e \<Rightarrow> Inl e
      | Inr ps \<Rightarrow> Inr (lit ''{'' @ join (lit '', '') ps @ lit ''}''))"
| "json_dumps (PObject c) =
     Inl (TypeError (lit ''Object of type '' @ lit c @ lit '' is not JSON serializable''))"
| "json_dumps (PRaising c e) = Inl e"

section \<open>Concrete clients\<close>

text \<open>
  Modelled from the spec: the message-bus client library is outside the sources. Its
  path resolution gives \<^verbatim>\<open>projects/<project>/topics/<topic>\<close> (the spec's example), and
  a bus is the list of messages it has accepted, oldest first; the future of a publish
  is the message's index.
\<close>

type_synonym bus = "(pystr \<times> bytes) list"

definition bus_topic_path :: "pystr \<Rightarrow> pystr \<Rightarrow> pystr" where
  "bus_topic_path project topic = lit ''projects/'' @ project @ lit ''/topics/'' @ topic"

definition bus_client :: "(bus, nat) client" where
  "bus_client =
     \<lparr>topic_path = (\<lambda>project topic s. (Inr (bus_topic_path project topic), s)),
      publish = (\<lambda>path data s. (Inr (length s), s @ [(path, data)]))\<rparr>"

text \<open>A client whose \<^verbatim>\<open>publish\<close> raises \<open>e\<close>, and one whose \<^verbatim>\<open>topic_path\<close> raises \<open>e\<close>.\<close>

definition publish_raises :: "exn \<Rightarrow> (bus, nat) client" where
  "publish_raises e = bus_client\<lparr>publish := (\<lambda>path data s. (Inl e, s))\<rparr>"

definition topic_path_raises :: "exn \<Rightarrow> (bus, nat) client" where
  "topic_path_raises e = bus_client\<lparr>topic_path := (\<lambda>project topic s. (Inl e, s))\<rparr>"

text \<open>
  \<^verbatim>\<open>traceback.print_exc\<close> with a working \<^verbatim>\<open>sys.stderr\<close>, and with a closed one: the
  write raises \<^verbatim>\<open>ValueError\<close> while \<open>e\<close> is being handled.
\<close>

definition stderr_ok :: "exn \<Rightarrow> bus \<Rightarrow> (exn + unit) \<times> bus" where
  "stderr_ok e s = (Inr (), s)"

definition stderr_closed :: "exn \<Rightarrow> bus \<Rightarrow> (exn + unit) \<times> bus" where
  "stderr_closed e s =
     (Inl (Exn ''ValueError'' True (lit ''I/O operation on closed file.'') (Some e)), s)"

text \<open>The inputs of the spec's examples.\<close>

definition hello :: pyval where
  "hello = PDict [(PStr (lit ''msg''), PStr (lit ''hello''))]"

definition hello_json :: pystr where
  "hello_json = lit ''{'' @ [34] @ lit ''msg'' @ [34] @ lit '': '' @ [34] @ lit ''hello'' @ [34] @ lit ''}''"

definition hello_bytes :: bytes where
  "hello_bytes = map of_nat hello_json"

definition proj1 :: pystr where
  "proj1 = lit ''proj1''"

definition logs :: pystr where
  "logs = lit ''logs''"

definition Forbidden_403 :: exn where
  "Forbidden_403 = Exn ''Forbidden'' True (lit ''403 Forbidden'') None"

definition Deadline_200 :: exn where
  "Deadline_200 = Exn ''DeadlineExceeded'' True (lit ''Deadline exceeded (200)'') None"

definition SystemExit_200 :: exn where
  "SystemExit_200 = Exn ''SystemExit'' False (lit ''200'') None"

definition raising_payload :: pyval where
  "raising_payload = PRaising ''Record'' SystemExit_200"

section \<open>\<^verbatim>\<open>compat_urlsafe_b64encode\<close> and the codecs around it\<close>

subsection \<open>\<^verbatim>\<open>bytes.decode\<close>: ASCII and UTF-8, error handler \<^verbatim>\<open>strict\<close>\<close>

definition hex2 :: "nat \<Rightarrow> pystr" where
  "hex2 b = [hexdigit (b div 16 mod 16), hexdigit (b mod 16)]"

text \<open>
  \<open>UnicodeDecodeError codec b start end reason\<close>: the bytes at positions \<open>start\<close> up to
  \<open>end - 1\<close> are rejected, \<open>b\<close> being the byte at \<open>start\<close>.
\<close>

definition UnicodeDecodeError :: "string \<Rightarrow> byte \<Rightarrow> nat \<Rightarrow> nat \<Rightarrow> string \<Rightarrow> exn" where
  "UnicodeDecodeError codec b start end reason =
     Exn ''UnicodeDecodeError'' True
       ([39] @ lit codec @ [39] @ lit '' codec can'' @ [39] @ lit ''t decode ''
        @ (if end = start + 1 then
             lit ''byte 0x'' @ hex2 (unat b) @ lit '' in position '' @ dec start
           else
             lit ''bytes in position '' @ dec start @ lit ''-'' @ dec (end - 1))
        @ lit '': '' @ lit reason)
       None"

definition emit :: "'a \<Rightarrow> exn + 'a list \<Rightarrow> exn + 'a list" where
  "emit x r = (case r of Inl e \<Rightarrow> Inl e | Inr xs \<Rightarrow> Inr (x # xs))"

fun ascii_decode_from :: "nat \<Rightarrow> bytes \<Rightarrow> exn + pystr" where
  "ascii_decode_from pos [] = Inr []"
| "ascii_decode_from pos (b # bs) =
     (if unat b < 128 then emit (unat b) (ascii_decode_from (pos + 1) bs)
      else Inl (UnicodeDecodeError ''ascii'' b pos (pos + 1) ''ordinal not in range(128)''))"

definition bytes_decode_ascii :: "bytes \<Rightarrow> exn + pystr" where
  "bytes_decode_ascii bs = ascii_decode_from 0 bs"

definition is_cont :: "byte \<Rightarrow> bool" where
  "is_cont b = (0x80 \<le> unat b \<and> unat b < 0xC0)"

text \<open>
  The second byte of a three-byte and of a four-byte sequence is rejected when it is no
  continuation byte, when the sequence would be overlong (\<^verbatim>\<open>E0\<close>, \<^verbatim>\<open>F0\<close>), a
  surrogate (\<^verbatim>\<open>ED\<close>) or beyond U+10FFFF (\<^verbatim>\<open>F4\<close>).
\<close>

definition bad_second3 :: "nat \<Rightarrow> byte \<Rightarrow> bool" where
  "bad_second3 ch b2 = (\<not> is_cont b2 \<or> (if unat b2 < 0xA0 then ch = 0xE0 else ch = 0xED))"

definition bad_second4 :: "nat \<Rightarrow> byte \<Rightarrow> bool" where
  "bad_second4 ch b2 = (\<not> is_cont b2 \<or> (if unat b2 < 0x90 then ch = 0xF0 else ch = 0xF4))"

definition invalid_start :: "byte \<Rightarrow> nat \<Rightarrow> exn" where
  "invalid_start b pos = UnicodeDecodeError ''utf-8'' b pos (pos + 1) ''invalid start byte''"

definition invalid_continuation :: "byte \<Rightarrow> nat \<Rightarrow> nat \<Rightarrow> exn" where
  "invalid_continuation b pos k =
     UnicodeDecodeError ''utf-8'' b pos (pos + k) ''invalid continuation byte''"

definition unexpected_end :: "byte \<Rightarrow> nat \<Rightarrow> nat \<Rightarrow> exn" where
  "unexpected_end b pos k = UnicodeDecodeError ''utf-8'' b pos (pos + k) ''unexpected end of data''"

fun utf8_decode_from :: "nat \<Rightarrow> bytes \<Rightarrow> exn + pystr" where
  "utf8_decode_from pos [] = Inr []"
| "utf8_decode_from pos (b # bs) =
     (let ch = unat b in
      if ch < 0x80 then emit ch (utf8_decode_from (pos + 1) bs)
      else if ch < 0xC2 then Inl (invalid_start b pos)
      else if ch < 0xE0 then
        (case bs of
           [] \<Rightarrow> Inl (unexpected_end b pos 1)
         | b2 # r2 \<Rightarrow>
             if \<not> is_cont b2 then Inl (invalid_continuation b pos 1)
             else emit (ch * 64 + unat b2 - (0xC0 * 64 + 0x80))
                    (utf8_decode_from (pos + 2) r2))
      else if ch < 0xF0 then
        (case bs of
           [] \<Rightarrow> Inl (unexpected_end b pos 1)
         | b2 # bs2 \<Rightarrow>
             if bad_second3 ch b2 then Inl (invalid_continuation b pos 1)
             else
               (case bs2 of
                  [] \<Rightarrow> Inl (unexpected_end b pos 2)
                | b3 # r3 \<Rightarrow>
                    if \<not> is_cont b3 then Inl (invalid_continuation b pos 2)
                    else emit (ch * 4096 + unat b2 * 64 + unat b3
                                 - (0xE0 * 4096 + 0x80 * 64 + 0x80))
                           (utf8_decode_from (pos + 3) r3)))
      else if ch < 0xF5 then
        (case bs of
           [] \<Rightarrow> Inl (unexpected_end b pos 1)
         | b2 # bs2 \<Rightarrow>
             if bad_second4 ch b2 then Inl (invalid_continuation b pos 1)
             else
               (case bs2 of
                  [] \<Rightarrow> Inl (unexpected_end b pos 2)
                | b3 # bs3 \<Rightarrow>
                    if \<not> is_cont b3 then Inl (invalid_continuation b pos 2)
                    else
                      (case bs3 of
                         [] \<Rightarrow> Inl (unexpected_end b pos 3)
                       | b4 # r4 \<Rightarrow>
                           if \<not> is_cont b4 then Inl (invalid_continuation b pos 3)
                           else emit (ch * 262144 + unat b2 * 4096 + unat b3 * 64 + unat b4
                                        - (0xF0 * 262144 + 0x80 * 4096 + 0x80 * 64 + 0x80))
                                  (utf8_decode_from (pos + 4) r4))))
      else Inl (invalid_start b pos))"

definition bytes_decode_utf8 :: "bytes \<Rightarrow> exn + pystr" where
  "bytes_decode_utf8 bs = utf8_decode_from 0 bs"

subsection \<open>\<^verbatim>\<open>base64.urlsafe_b64encode\<close>\<close>

definition table_b2a_base64 :: string where
  "table_b2a_base64 = ''ABCDEFGHIJKLMNOPQRSTUVWXYZabcdefghijklmnopqrstuvwxyz0123456789+/''"

definition b2a :: "nat \<Rightarrow> byte" where
  "b2a i = of_char (table_b2a_base64 ! i)"

definition BASE64_PAD :: byte where
  "BASE64_PAD = 61"

text \<open>
  \<^verbatim>\<open>binascii.b2a_base64\<close> without the newline: three octets give four characters,
  a last group of one or two octets is padded with \<^verbatim>\<open>=\<close>.
\<close>

fun b2a_base64 :: "bytes \<Rightarrow> bytes" where
  "b2a_base64 [] = []"
| "b2a_base64 [a] =
     [b2a (unat a div 4), b2a (unat a mod 4 * 16), BASE64_PAD, BASE64_PAD]"
| "b2a_base64 [a, b] =
     [b2a (unat a div 4), b2a (unat a mod 4 * 16 + unat b div 16),
      b2a (unat b mod 16 * 4), BASE64_PAD]"
| "b2a_base64 (a # b # c # rest) =
     [b2a (unat a div 4), b2a (unat a mod 4 * 16 + unat b div 16),
      b2a (unat b mod 16 * 4 + unat c div 64), b2a (unat c mod 64)] @ b2a_base64 rest"

definition urlsafe_encode_translation :: "byte \<Rightarrow> byte" where
  "urlsafe_encode_translation ch = (if ch = 43 then 45 else if ch = 47 then 95 else ch)"

definition urlsafe_b64encode :: "bytes \<Rightarrow> bytes" where
  "urlsafe_b64encode s = map urlsafe_encode_translation (b2a_base64 s)"

subsection \<open>\<^verbatim>\<open>base64.urlsafe_b64decode\<close>\<close>

definition ValueError :: "pystr \<Rightarrow> exn" where
  "ValueError msg = Exn ''ValueError'' True msg None"

definition binascii_Error :: "pystr \<Rightarrow> exn" where
  "binascii_Error msg = Exn ''Error'' True msg None"

text \<open>
  \<^verbatim>\<open>str.encode('ascii')\<close>; the encoder reports the whole run of characters beyond ASCII
  that starts at the first offending position, and a single character in the width of
  its escape.
\<close>

definition hex8 :: "nat \<Rightarrow> pystr" where
  "hex8 c = hex4 (c div 65536) @ hex4 c"

definition escaped_char :: "nat \<Rightarrow> pystr" where
  "escaped_char c =
     (if c \<le> 0xFF then [92, 120] @ hex2 c
      else if c \<le> 0xFFFF then [92, 117] @ hex4 c
      else [92, 85] @ hex8 c)"

definition UnicodeEncodeError_ascii :: "nat \<Rightarrow> pystr \<Rightarrow> exn" where
  "UnicodeEncodeError_ascii pos rest =
    (let n = length (takeWhile (\<lambda>c. 128 \<le> c) rest) in
     Exn ''UnicodeEncodeError'' True
       ([39] @ lit ''ascii'' @ [39] @ lit '' codec can'' @ [39] @ lit ''t encode ''
        @ (if n = 1 then
             lit ''character '' @ [39] @ escaped_char (hd rest) @ [39]
             @ lit '' in position '' @ dec pos
           else
             lit ''characters in position '' @ dec pos @ lit ''-'' @ dec (pos + n - 1))
        @ lit '': ordinal not in range(128)'')
       None)"

fun ascii_encode_from :: "nat \<Rightarrow> pystr \<Rightarrow> exn + bytes" where
  "ascii_encode_from pos [] = Inr []"
| "ascii_encode_from pos (c # cs) =
     (if c < 128 then emit (of_nat c) (ascii_encode_from (pos + 1) cs)
      else Inl (UnicodeEncodeError_ascii pos (c # cs)))"

text \<open>
  \<^verbatim>\<open>base64._bytes_from_decode_data\<close> on a string: the \<^verbatim>\<open>ValueError\<close> is raised inside
  the handler of the \<^verbatim>\<open>UnicodeEncodeError\<close>.
\<close>

definition bytes_from_decode_data :: "pystr \<Rightarrow> exn + bytes" where
  "bytes_from_decode_data s =
     (case ascii_encode_from 0 s of
        Inl e \<Rightarrow>
          Inl (raise_in_handler
                 (ValueError (lit ''string argument should contain only ASCII characters'')) e)
      | Inr bs \<Rightarrow> Inr bs)"

definition urlsafe_decode_translation :: "byte \<Rightarrow> byte" where
  "urlsafe_decode_translation ch = (if ch = 45 then 43 else if ch = 95 then 47 else ch)"

definition table_a2b_base64 :: "byte \<Rightarrow> nat option" where
  "table_a2b_base64 ch =
     (let c = unat ch in
      if 65 \<le> c \<and> c \<le> 90 then Some (c - 65)
      else if 97 \<le> c \<and> c \<le> 122 then Some (c - 71)
      else if 48 \<le> c \<and> c \<le> 57 then Some (c + 4)
      else if c = 43 then Some 62
      else if c = 47 then Some 63
      else None)"

text \<open>
  \<^verbatim>\<open>binascii.a2b_base64\<close> in its default, non-strict mode: the loop over the input with
  its variables \<^verbatim>\<open>quad_pos\<close>, \<^verbatim>\<open>leftchar\<close> and \<^verbatim>\<open>pads\<close>; \<open>n_out\<close> counts the octets
  written so far. Characters outside the alphabet are skipped, a complete pad sequence
  ends the decoding, and a last group that is not complete is an error.
\<close>

fun a2b_base64_loop :: "nat \<Rightarrow> nat \<Rightarrow> nat \<Rightarrow> nat \<Rightarrow> bytes \<Rightarrow> exn + bytes" where
  "a2b_base64_loop quad_pos leftchar pads n_out [] =
     (if quad_pos = 0 then Inr []
      else if quad_pos = 1 then
        Inl (binascii_Error
               (lit ''Invalid base64-encoded string: number of data characters (''
                @ dec (n_out div 3 * 4 + 1)
                @ lit '') cannot be 1 more than a multiple of 4''))
      else Inl (binascii_Error (lit ''Incorrect padding'')))"
| "a2b_base64_loop quad_pos leftchar pads n_out (ch # rest) =
     (if ch = BASE64_PAD then
        (if 2 \<le> quad_pos \<and> 4 \<le> quad_pos + (pads + 1) then Inr []
         else a2b_base64_loop quad_pos leftchar (if 2 \<le> quad_pos then pads + 1 else pads)
                n_out rest)
      else
        (case table_a2b_base64 ch of
           None \<Rightarrow> a2b_base64_loop quad_pos leftchar pads n_out rest
         | Some this_ch \<Rightarrow>
             if quad_pos = 0 then a2b_base64_loop 1 this_ch 0 n_out rest
             else if quad_pos = 1 then
               emit (of_nat (leftchar * 4 + this_ch div 16))
                 (a2b_base64_loop 2 (this_ch mod 16) 0 (n_out + 1) rest)
             else if quad_pos = 2 then
               emit (of_nat (leftchar * 16 + this_ch div 4))
                 (a2b_base64_loop 3 (this_ch mod 4) 0 (n_out + 1) rest)
             else
               emit (of_nat (leftchar * 64 + this_ch))
                 (a2b_base64_loop 0 0 0 (n_out + 1) rest)))"

definition a2b_base64 :: "bytes \<Rightarrow> exn + bytes" where
  "a2b_base64 s = a2b_base64_loop 0 0 0 0 s"

definition urlsafe_b64decode :: "pystr \<Rightarrow> exn + bytes" where
  "urlsafe_b64decode s =
     (case bytes_from_decode_data s of
        Inl e \<Rightarrow> Inl e
      | Inr bs \<Rightarrow> a2b_base64 (map urlsafe_decode_translation bs))"

subsection \<open>The function\<close>

text \<open>
  \<open>major\<close> is \<^verbatim>\<open>sys.version_info[0]\<close> and \<open>v\<close> a \<^verbatim>\<open>str\<close> of the running interpreter: on
  Python 3 a sequence of code points, on Python 2 a byte string, whose elements are
  numbers below 256.
\<close>

definition compat_urlsafe_b64encode :: "nat \<Rightarrow> pystr \<Rightarrow> exn + pystr" where
  "compat_urlsafe_b64encode major v =
     (if 3 \<le> major then
        (case str_encode v of
           Inl e \<Rightarrow> Inl e
         | Inr bs \<Rightarrow> bytes_decode_ascii (urlsafe_b64encode bs))
      else Inr (map unat (urlsafe_b64encode (map of_nat v))))"

text \<open>The decoding that undoes it on Python 3.\<close>

definition decode_back :: "pystr \<Rightarrow> exn + pystr" where
  "decode_back r =
     (case urlsafe_b64decode r of
        Inl e \<Rightarrow> Inl e
      | Inr bs \<Rightarrow> bytes_decode_utf8 bs)"

definition valid_text :: "pystr \<Rightarrow> bool" where
  "valid_text v = list_all (\<lambda>c. c < 0x110000 \<and> \<not> is_surrogate c) v"

text \<open>
  The table \<open>table_b2a_base64\<close> read as arithmetic on the index, for the proofs.
\<close>

definition b2a_code :: "nat \<Rightarrow> nat" where
  "b2a_code i = (if i < 26 then 65 + i else if i < 52 then 71 + i else if i < 62 then i - 4
                 else if i = 62 then 43 else 47)"

text \<open>
  A text with characters of one, two, three and four octets, its encoding, and a
  string that holds a lone surrogate.
\<close>

definition sample_text :: pystr where
  "sample_text = [104, 233, 0x20AC, 0x1F600]"

definition sample_encoded :: pystr where
  "sample_encoded = lit ''aMOp4oKs8J-YgA==''"

definition lone_surrogate :: pystr where
  "lone_surrogate = [0xD800]"

section \<open>Properties of the substring test and of the handler\<close>

text \<open>
  \<open>py_in ns hs\<close> is Python's \<^verbatim>\<open>ns in hs\<close>: \<open>ns\<close> occurs in \<open>hs\<close> as a contiguous run.
\<close>

lemma startswith_iff: "startswith hs ns \<longleftrightarrow> (\<exists>ss. hs = ns @ ss)"
  by (induction hs ns rule: startswith.induct) auto

lemma py_in_iff: "py_in ns hs \<longleftrightarrow> (\<exists>ps ss. hs = ps @ ns @ ss)"
proof (induction hs)
  case Nil
  then show ?case by auto
next
  case (Cons h hs)
  show ?case
  proof
    assume "py_in ns (h # hs)"
    then consider "startswith (h # hs) ns" | "py_in ns hs" by auto
    then show "\<exists>ps ss. h # hs = ps @ ns @ ss"
    proof cases
      case 1
      then obtain ss where "h # hs = ns @ ss" by (auto simp: startswith_iff)
      then have "h # hs = [] @ ns @ ss" by simp
      then show ?thesis by blast
    next
      case 2
      with Cons obtain ps ss where "hs = ps @ ns @ ss" by blast
      then have "h # hs = (h # ps) @ ns @ ss" by simp
      then show ?thesis by blast
    qed
  next
    assume "\<exists>ps ss. h # hs = ps @ ns @ ss"
    then obtain ps ss where eq: "h # hs = ps @ ns @ ss" by blast
    show "py_in ns (h # hs)"
    proof (cases ps)
      case Nil
      with eq have "startswith (h # hs) ns" by (auto simp: startswith_iff)
      then show ?thesis by simp
    next
      case (Cons p ps')
      with eq have "hs = ps' @ ns @ ss" by simp
      with Cons.IH have "py_in ns hs" by blast
      then show ?thesis by simp
    qed
  qed
qed

lemma try_topic_path_raises:
  "topic_path client project_id topic s = (Inl e, s1) \<Longrightarrow>
   publish_body_try client dumps body project_id topic s
     = (Inl e, s1, [CallTopicPath project_id topic])"
  by (simp add: publish_body_try_def)

lemma try_dumps_raises:
  "topic_path client project_id topic s = (Inr tp, s1) \<Longrightarrow> dumps body = Inl e \<Longrightarrow>
   publish_body_try client dumps body project_id topic s
     = (Inl e, s1, [CallTopicPath project_id topic])"
  by (simp add: publish_body_try_def)

lemma try_encode_raises:
  "topic_path client project_id topic s = (Inr tp, s1) \<Longrightarrow> dumps body = Inr js \<Longrightarrow>
   str_encode js = Inl e \<Longrightarrow>
   publish_body_try client dumps body project_id topic s
     = (Inl e, s1, [CallTopicPath project_id topic])"
  by (simp add: publish_body_try_def)

lemma try_publish_called:
  "topic_path client project_id topic s = (Inr tp, s1) \<Longrightarrow> dumps body = Inr js \<Longrightarrow>
   str_encode js = Inr data \<Longrightarrow> publish client tp data s1 = (r, s2) \<Longrightarrow>
   publish_body_try client dumps body project_id topic s
     = (r, s2, [CallTopicPath project_id topic, CallPublish tp data])"
  by (simp add: publish_body_try_def)

lemma handler_recoverable:
  "publish_body_try client dumps body project_id topic s = (Inl e, s', evs) \<Longrightarrow>
   is_Exception e \<Longrightarrow> py_in (lit ''200'') (exn_str e) \<Longrightarrow>
   publish_body client dumps body project_id topic s
     = (Inl (raise_in_handler RecoverableError e), s', evs)"
  by (simp add: publish_body_def)

lemma handler_reraise:
  "publish_body_try client dumps body project_id topic s = (Inl e, s', evs) \<Longrightarrow>
   \<not> py_in (lit ''200'') (exn_str e) \<Longrightarrow>
   publish_body client dumps body project_id topic s = (Inl e, s', evs)"
  by (simp add: publish_body_def)

lemma handler_passes_base:
  "publish_body_try client dumps body project_id topic s = (Inl e, s', evs) \<Longrightarrow>
   \<not> is_Exception e \<Longrightarrow>
   publish_body client dumps body project_id topic s = (Inl e, s', evs)"
  by (simp add: publish_body_def)

lemma handler_success:
  "publish_body_try client dumps body project_id topic s = (Inr fut, s', evs) \<Longrightarrow>
   publish_body client dumps body project_id topic s = (Inr PNone, s', evs)"
  by (simp add: publish_body_def)

lemma raised_RecoverableError:
  "raise_in_handler RecoverableError e = Exn ''RecoverableError'' True [] (Some e)"
  by (simp add: raise_in_handler_def RecoverableError_def)

lemma raised_differs:
  "py_in (lit ''200'') (exn_str e) \<Longrightarrow> raise_in_handler RecoverableError e \<noteq> e"
  by (cases e) (auto simp: raise_in_handler_def RecoverableError_def lit_def)

lemma hello_dumps: "json_dumps hello = Inr hello_json"
  by (simp add: hello_def hello_json_def json_string_def json_escape_char_def lit_def)

lemma hello_encode: "str_encode hello_json = Inr hello_bytes"
  by (simp add: hello_bytes_def hello_json_def str_encode_def is_surrogate_def utf8_char_def lit_def)

text \<open>
  Claim C1, as amended. Path resolution and serialization having succeeded, let the
  client's \<^verbatim>\<open>publish\<close> raise \<open>e\<close>. If \<open>e\<close> derives from \<^verbatim>\<open>Exception\<close> and its text contains
  \<^verbatim>\<open>200\<close>, \<^verbatim>\<open>publish_body\<close> raises a \<^verbatim>\<open>RecoverableError\<close>, never \<open>e\<close> itself; it is
  constructed with no arguments, so its own text is empty, and what it carries of \<open>e\<close>
  is the \<^verbatim>\<open>__context__\<close> link that Python 3 attaches to an exception raised inside a
  handler. If \<open>e\<close> does not derive from \<^verbatim>\<open>Exception\<close>, \<open>e\<close> propagates unchanged whatever
  its text.
\<close>

theorem publish_error_200_recoverable:
  assumes "topic_path client project_id topic s = (Inr tp, s1)"
    and "dumps body = Inr js"
    and "str_encode js = Inr data"
    and "publish client tp data s1 = (Inl e, s2)"
  shows "(is_Exception e \<and> py_in (lit ''200'') (exn_str e) \<longrightarrow>
            fst (publish_body client dumps body project_id topic s)
              = Inl (Exn ''RecoverableError'' True [] (Some e))
            \<and> Exn ''RecoverableError'' True [] (Some e) \<noteq> e)
       \<and> (\<not> is_Exception e \<longrightarrow>
            fst (publish_body client dumps body project_id topic s) = Inl e)"
proof -
  from assms have t: "publish_body_try client dumps body project_id topic s
      = (Inl e, s2, [CallTopicPath project_id topic, CallPublish tp data])"
    by (rule try_publish_called)
  show ?thesis
  proof (intro conjI impI)
    assume a: "is_Exception e \<and> py_in (lit ''200'') (exn_str e)"
    then have "is_Exception e" and c: "py_in (lit ''200'') (exn_str e)"
      by simp_all
    from handler_recoverable [OF t this]
    show "fst (publish_body client dumps body project_id topic s)
        = Inl (Exn ''RecoverableError'' True [] (Some e))"
      by (simp add: raised_RecoverableError)
    from raised_differs [OF c] show "Exn ''RecoverableError'' True [] (Some e) \<noteq> e"
      by (simp add: raised_RecoverableError)
  next
    assume "\<not> is_Exception e"
    from handler_passes_base [OF t this]
    show "fst (publish_body client dumps body project_id topic s) = Inl e"
      by simp
  qed
qed

theorem publish_error_200_recoverable_witness:
  "is_Exception Deadline_200 \<and> py_in (lit ''200'') (exn_str Deadline_200)
   \<and> fst (publish_body (publish_raises Deadline_200) json_dumps hello proj1 logs [])
       = Inl (Exn ''RecoverableError'' True [] (Some Deadline_200))
   \<and> \<not> is_Exception SystemExit_200
   \<and> fst (publish_body (publish_raises SystemExit_200) json_dumps hello proj1 logs [])
       = Inl SystemExit_200"
  using publish_error_200_recoverable [of "publish_raises Deadline_200" proj1 logs "[]"
      "bus_topic_path proj1 logs" "[]" json_dumps hello hello_json hello_bytes Deadline_200 "[]"]
    publish_error_200_recoverable [of "publish_raises SystemExit_200" proj1 logs "[]"
      "bus_topic_path proj1 logs" "[]" json_dumps hello hello_json hello_bytes SystemExit_200 "[]"]
  by (simp add: publish_raises_def bus_client_def hello_dumps hello_encode Deadline_200_def
      SystemExit_200_def lit_def)

text \<open>
  Claim C1 as stated fails twice. An exception outside \<^verbatim>\<open>Exception\<close>: \<^verbatim>\<open>SystemExit(200)\<close>
  has the text \<^verbatim>\<open>200\<close>, is not caught by \<^verbatim>\<open>except Exception\<close>, and leaves
  \<^verbatim>\<open>publish_body\<close> as it is. And the \<^verbatim>\<open>RecoverableError\<close> raised for an error with \<^verbatim>\<open>200\<close>
  in its text holds that error as its \<^verbatim>\<open>__context__\<close>.
\<close>

theorem publish_SystemExit_200_counterexample:
  "py_in (lit ''200'') (exn_str SystemExit_200)
   \<and> publish (publish_raises SystemExit_200) (bus_topic_path proj1 logs) hello_bytes []
       = (Inl SystemExit_200, [])
   \<and> fst (publish_body (publish_raises SystemExit_200) json_dumps hello proj1 logs [])
       = Inl SystemExit_200
   \<and> exn_class SystemExit_200 \<noteq> ''RecoverableError''
   \<and> map_sum exn_context id
        (fst (publish_body (publish_raises Deadline_200) json_dumps hello proj1 logs []))
       = Inl (Some Deadline_200)"
  by (simp add: publish_body_def publish_body_try_def publish_raises_def bus_client_def
      hello_dumps hello_encode SystemExit_200_def Deadline_200_def RecoverableError_def
      raise_in_handler_def lit_def)

text \<open>
  Claim C2. A failure of path resolution or of the client's \<^verbatim>\<open>publish\<close> whose text
  does not contain \<^verbatim>\<open>200\<close> leaves \<^verbatim>\<open>publish_body\<close> as the very exception that was
  raised, and the client's state is the one the failing call left.
\<close>

theorem permanent_failure_reraised:
  assumes "\<not> py_in (lit ''200'') (exn_str e)"
    and "topic_path client project_id topic s = (Inl e, s')
         \<or> (\<exists>tp s1 js data. topic_path client project_id topic s = (Inr tp, s1)
               \<and> dumps body = Inr js \<and> str_encode js = Inr data
               \<and> publish client tp data s1 = (Inl e, s'))"
  shows "fst (publish_body client dumps body project_id topic s) = Inl e
         \<and> fst (snd (publish_body client dumps body project_id topic s)) = s'"
proof -
  from assms(2) obtain evs where
    "publish_body_try client dumps body project_id topic s = (Inl e, s', evs)"
    by (auto simp: try_topic_path_raises try_publish_called)
  from handler_reraise [OF this assms(1)] show ?thesis by simp
qed

theorem permanent_failure_reraised_witness:
  "\<not> py_in (lit ''200'') (exn_str Forbidden_403)
   \<and> fst (publish_body (publish_raises Forbidden_403) json_dumps hello proj1 logs [])
       = Inl Forbidden_403
   \<and> fst (publish_body (topic_path_raises Forbidden_403) json_dumps hello proj1 logs [])
       = Inl Forbidden_403"
  using permanent_failure_reraised [of Forbidden_403 "publish_raises Forbidden_403" proj1 logs
      "[]" "[]" json_dumps hello]
    permanent_failure_reraised [of Forbidden_403 "topic_path_raises Forbidden_403" proj1 logs
      "[]" "[]" json_dumps hello]
  by (simp add: publish_raises_def topic_path_raises_def bus_client_def hello_dumps hello_encode
      Forbidden_403_def lit_def)

text \<open>
  Claim C3. If \<^verbatim>\<open>publish_body(client, P, Q, T)\<close> returns, then \<^verbatim>\<open>client.topic_path(Q, T)\<close>
  returned a path, \<^verbatim>\<open>json.dumps(P)\<close> returned a text, and the one call of
  \<^verbatim>\<open>client.publish\<close> got that path and the encoded text. The witness is the spec's
  example: payload \<^verbatim>\<open>{"msg": "hello"}\<close>, project \<^verbatim>\<open>proj1\<close>, topic \<^verbatim>\<open>logs\<close>.
\<close>

theorem publish_success_submits_json:
  assumes "fst (publish_body client dumps P Q T s) = Inr r"
  shows "\<exists>tp s1 js data fut s2.
           topic_path client Q T s = (Inr tp, s1)
         \<and> dumps P = Inr js \<and> str_encode js = Inr data
         \<and> publish client tp data s1 = (Inr fut, s2)
         \<and> publish_body client dumps P Q T s
             = (Inr PNone, s2, [CallTopicPath Q T, CallPublish tp data])"
  using assms
  by (auto simp: publish_body_def publish_body_try_def Let_def
      split: prod.splits sum.splits if_splits)

theorem publish_success_submits_json_witness:
  "fst (publish_body bus_client json_dumps hello proj1 logs []) = Inr PNone
   \<and> json_dumps hello = Inr hello_json \<and> str_encode hello_json = Inr hello_bytes
   \<and> snd (publish_body bus_client json_dumps hello proj1 logs [])
       = ([(lit ''projects/proj1/topics/logs'', hello_bytes)],
          [CallTopicPath proj1 logs, CallPublish (lit ''projects/proj1/topics/logs'') hello_bytes])"
  using publish_success_submits_json [of bus_client json_dumps hello proj1 logs "[]" PNone]
  by (simp add: publish_body_def publish_body_try_def bus_client_def bus_topic_path_def
      hello_dumps hello_encode proj1_def logs_def lit_def)

text \<open>
  Claim C4, as amended. \<^verbatim>\<open>check_topic\<close> returns \<^verbatim>\<open>True\<close> when \<^verbatim>\<open>client.topic_path\<close>
  returns. When it raises an exception \<open>e\<close> that derives from \<^verbatim>\<open>Exception\<close>, the traceback
  is printed to \<^verbatim>\<open>sys.stderr\<close>: if the printing returns, \<^verbatim>\<open>check_topic\<close> returns
  \<^verbatim>\<open>False\<close> and \<open>e\<close> is not propagated; if the printing raises, that exception propagates.
  An exception outside \<^verbatim>\<open>Exception\<close> raised by \<^verbatim>\<open>client.topic_path\<close> propagates to the
  caller, and nothing is printed.
\<close>

theorem check_topic_result:
  "(\<forall>tp s1. topic_path client project_id topic s = (Inr tp, s1) \<longrightarrow>
       check_topic client print_exc project_id topic s
         = (Inr True, s1, [CallTopicPath project_id topic]))
   \<and> (\<forall>e s1 u s2. topic_path client project_id topic s = (Inl e, s1) \<and> is_Exception e
         \<and> print_exc e s1 = (Inr u, s2) \<longrightarrow>
       check_topic client print_exc project_id topic s
         = (Inr False, s2, [CallTopicPath project_id topic, PrintExc e]))
   \<and> (\<forall>e s1 e2 s2. topic_path client project_id topic s = (Inl e, s1) \<and> is_Exception e
         \<and> print_exc e s1 = (Inl e2, s2) \<longrightarrow>
       check_topic client print_exc project_id topic s
         = (Inl e2, s2, [CallTopicPath project_id topic, PrintExc e]))
   \<and> (\<forall>e s1. topic_path client project_id topic s = (Inl e, s1) \<and> \<not> is_Exception e \<longrightarrow>
       check_topic client print_exc project_id topic s
         = (Inl e, s1, [CallTopicPath project_id topic]))"
  by (simp add: check_topic_def)

theorem check_topic_result_witness:
  "fst (check_topic bus_client stderr_ok proj1 logs []) = Inr True
   \<and> is_Exception Forbidden_403
   \<and> check_topic (topic_path_raises Forbidden_403) stderr_ok proj1 logs []
       = (Inr False, [], [CallTopicPath proj1 logs, PrintExc Forbidden_403])
   \<and> fst (check_topic (topic_path_raises Forbidden_403) stderr_closed proj1 logs [])
       = Inl (Exn ''ValueError'' True (lit ''I/O operation on closed file.'') (Some Forbidden_403))
   \<and> \<not> is_Exception SystemExit_200
   \<and> check_topic (topic_path_raises SystemExit_200) stderr_ok proj1 logs []
       = (Inl SystemExit_200, [], [CallTopicPath proj1 logs])"
  using check_topic_result [of bus_client proj1 logs "[]" stderr_ok]
    check_topic_result [of "topic_path_raises Forbidden_403" proj1 logs "[]" stderr_ok]
    check_topic_result [of "topic_path_raises Forbidden_403" proj1 logs "[]" stderr_closed]
    check_topic_result [of "topic_path_raises SystemExit_200" proj1 logs "[]" stderr_ok]
  by (simp add: topic_path_raises_def bus_client_def Forbidden_403_def SystemExit_200_def
      stderr_ok_def stderr_closed_def)

text \<open>
  Claim C4 as stated fails twice: \<^verbatim>\<open>SystemExit\<close> raised by \<^verbatim>\<open>client.topic_path\<close> is not
  caught by \<^verbatim>\<open>except Exception\<close>, so \<^verbatim>\<open>check_topic\<close> raises it instead of returning
  \<^verbatim>\<open>False\<close>; and with a closed \<^verbatim>\<open>sys.stderr\<close> the printing of the traceback raises
  \<^verbatim>\<open>ValueError\<close>, which leaves \<^verbatim>\<open>check_topic\<close> as well.
\<close>

theorem check_topic_SystemExit_counterexample:
  "topic_path (topic_path_raises SystemExit_200) proj1 logs [] = (Inl SystemExit_200, [])
   \<and> fst (check_topic (topic_path_raises SystemExit_200) stderr_ok proj1 logs [])
       = Inl SystemExit_200
   \<and> fst (check_topic (topic_path_raises SystemExit_200) stderr_ok proj1 logs []) \<noteq> Inr False
   \<and> is_Exception Forbidden_403
   \<and> fst (check_topic (topic_path_raises Forbidden_403) stderr_closed proj1 logs [])
       = Inl (Exn ''ValueError'' True (lit ''I/O operation on closed file.'') (Some Forbidden_403))"
  by (simp add: check_topic_def topic_path_raises_def bus_client_def SystemExit_200_def
      Forbidden_403_def stderr_ok_def stderr_closed_def)

text \<open>
  Claim C5. Whatever \<^verbatim>\<open>http\<close> and \<^verbatim>\<open>credentials\<close> are, \<^verbatim>\<open>get_pubsub_client\<close>
  returns the module's \<^verbatim>\<open>published_client\<close>, does not raise, leaves the module as it
  was and does nothing to the outside; a later call with other arguments returns the
  same handle.
\<close>

theorem get_pubsub_client_shared:
  "get_pubsub_client http credentials m = (Inr (published_client m), m, [])
   \<and> fst (get_pubsub_client http' credentials' (fst (snd (get_pubsub_client http credentials m))))
       = fst (get_pubsub_client http credentials m)"
  by (simp add: get_pubsub_client_def)

theorem get_pubsub_client_shared_witness:
  "import_module (\<lambda>s. (Inr bus_client, s)) () = (Inr \<lparr>published_client = bus_client\<rparr>, ())
   \<and> get_pubsub_client (None :: nat option) (None :: nat option) \<lparr>published_client = bus_client\<rparr>
       = (Inr bus_client, \<lparr>published_client = bus_client\<rparr>, [])
   \<and> fst (get_pubsub_client (Some (1 :: nat)) (Some (2 :: nat)) \<lparr>published_client = bus_client\<rparr>)
       = Inr bus_client"
  using get_pubsub_client_shared [of "None :: nat option" "None :: nat option"
      "\<lparr>published_client = bus_client\<rparr>" "Some (1 :: nat)" "Some (2 :: nat)"]
  by (simp add: import_module_def get_pubsub_client_def)

text \<open>
  Claim C6. Whatever the outcome, one call of \<^verbatim>\<open>publish_body\<close> calls the client's
  \<^verbatim>\<open>publish\<close> at most once.
\<close>

theorem publish_called_at_most_once:
  "length (filter is_CallPublish (snd (snd (publish_body client dumps body project_id topic s)))) \<le> 1"
  by (simp add: publish_body_def publish_body_try_def Let_def split: prod.splits sum.splits)

theorem publish_called_at_most_once_witness:
  "length (filter is_CallPublish
             (snd (snd (publish_body bus_client json_dumps hello proj1 logs [])))) = 1
   \<and> length (filter is_CallPublish
             (snd (snd (publish_body (publish_raises Deadline_200) json_dumps hello proj1 logs []))))
       \<le> 1"
  using publish_called_at_most_once [of "publish_raises Deadline_200" json_dumps hello proj1 logs "[]"]
  by (simp add: publish_body_def publish_body_try_def bus_client_def hello_dumps hello_encode)

text \<open>
  Claim C7. When path resolution, serialization and the client's \<^verbatim>\<open>publish\<close>
  succeed, \<^verbatim>\<open>publish_body\<close> returns \<^verbatim>\<open>None\<close> whatever future \<open>fut\<close> the client
  returned, and does nothing after the call of \<^verbatim>\<open>publish\<close>: the state is the one that
  call left and no further call is made.
\<close>

theorem publish_success_returns_None:
  assumes "topic_path client project_id topic s = (Inr tp, s1)"
    and "dumps body = Inr js"
    and "str_encode js = Inr data"
    and "publish client tp data s1 = (Inr fut, s2)"
  shows "publish_body client dumps body project_id topic s
           = (Inr PNone, s2, [CallTopicPath project_id topic, CallPublish tp data])"
  using assms by (simp add: publish_body_def publish_body_try_def)

theorem publish_success_returns_None_witness:
  "publish bus_client (bus_topic_path proj1 logs) hello_bytes [] = (Inr 0, [(bus_topic_path proj1 logs, hello_bytes)])
   \<and> fst (publish_body bus_client json_dumps hello proj1 logs []) = Inr PNone"
  using publish_success_returns_None [of bus_client proj1 logs "[]" "bus_topic_path proj1 logs" "[]"
      json_dumps hello hello_json hello_bytes 0 "[(bus_topic_path proj1 logs, hello_bytes)]"]
  by (simp add: bus_client_def hello_dumps hello_encode)

text \<open>
  Claim C8, as amended. Let \<^verbatim>\<open>client.topic_path\<close> raise \<open>e\<close>. If \<open>e\<close> derives from
  \<^verbatim>\<open>Exception\<close> and its text contains \<^verbatim>\<open>200\<close>, \<^verbatim>\<open>publish_body\<close> raises a
  \<^verbatim>\<open>RecoverableError\<close> (with \<open>e\<close> as its \<^verbatim>\<open>__context__\<close>) rather than \<open>e\<close>: the heuristic
  applies to path resolution as to publishing. If \<open>e\<close> does not derive from \<^verbatim>\<open>Exception\<close>,
  \<open>e\<close> propagates unchanged whatever its text. In both cases \<^verbatim>\<open>publish\<close> is not called.
\<close>

theorem topic_path_error_200_recoverable:
  assumes "topic_path client project_id topic s = (Inl e, s1)"
  shows "(is_Exception e \<and> py_in (lit ''200'') (exn_str e) \<longrightarrow>
            publish_body client dumps body project_id topic s
              = (Inl (Exn ''RecoverableError'' True [] (Some e)), s1,
                 [CallTopicPath project_id topic])
            \<and> Exn ''RecoverableError'' True [] (Some e) \<noteq> e)
       \<and> (\<not> is_Exception e \<longrightarrow>
            publish_body client dumps body project_id topic s
              = (Inl e, s1, [CallTopicPath project_id topic]))"
proof -
  note t = try_topic_path_raises [OF assms, of dumps body]
  show ?thesis
  proof (intro conjI impI)
    assume a: "is_Exception e \<and> py_in (lit ''200'') (exn_str e)"
    then have "is_Exception e" and c: "py_in (lit ''200'') (exn_str e)"
      by simp_all
    from handler_recoverable [OF t this]
    show "publish_body client dumps body project_id topic s
        = (Inl (Exn ''RecoverableError'' True [] (Some e)), s1, [CallTopicPath project_id topic])"
      by (simp add: raised_RecoverableError)
    from raised_differs [OF c] show "Exn ''RecoverableError'' True [] (Some e) \<noteq> e"
      by (simp add: raised_RecoverableError)
  next
    assume "\<not> is_Exception e"
    from handler_passes_base [OF t this]
    show "publish_body client dumps body project_id topic s
        = (Inl e, s1, [CallTopicPath project_id topic])" .
  qed
qed

theorem topic_path_error_200_recoverable_witness:
  "is_Exception Deadline_200 \<and> py_in (lit ''200'') (exn_str Deadline_200)
   \<and> publish_body (topic_path_raises Deadline_200) json_dumps hello proj1 logs []
       = (Inl (Exn ''RecoverableError'' True [] (Some Deadline_200)), [],
          [CallTopicPath proj1 logs])
   \<and> \<not> is_Exception SystemExit_200
   \<and> publish_body (topic_path_raises SystemExit_200) json_dumps hello proj1 logs []
       = (Inl SystemExit_200, [], [CallTopicPath proj1 logs])"
  using topic_path_error_200_recoverable [of "topic_path_raises Deadline_200" proj1 logs "[]"
      Deadline_200 "[]" json_dumps hello]
    topic_path_error_200_recoverable [of "topic_path_raises SystemExit_200" proj1 logs "[]"
      SystemExit_200 "[]" json_dumps hello]
  by (simp add: topic_path_raises_def bus_client_def Deadline_200_def SystemExit_200_def lit_def)

text \<open>
  Claim C8 as stated fails for an exception outside \<^verbatim>\<open>Exception\<close>:
  \<^verbatim>\<open>SystemExit(200)\<close> raised by \<^verbatim>\<open>client.topic_path\<close> leaves \<^verbatim>\<open>publish_body\<close>
  unchanged.
\<close>

theorem topic_path_SystemExit_200_counterexample:
  "py_in (lit ''200'') (exn_str SystemExit_200)
   \<and> topic_path (topic_path_raises SystemExit_200) proj1 logs [] = (Inl SystemExit_200, [])
   \<and> fst (publish_body (topic_path_raises SystemExit_200) json_dumps hello proj1 logs [])
       = Inl SystemExit_200
   \<and> exn_class SystemExit_200 \<noteq> ''RecoverableError''"
  by (simp add: publish_body_def publish_body_try_def topic_path_raises_def bus_client_def
      SystemExit_200_def lit_def)

text \<open>
  Claim C9, as amended. When \<^verbatim>\<open>json.dumps(body)\<close> raises \<open>e\<close>, \<^verbatim>\<open>publish_body\<close> raises and
  the client's \<^verbatim>\<open>publish\<close> is not called. Path resolution having succeeded, what is
  raised is a \<^verbatim>\<open>RecoverableError\<close> (with \<open>e\<close> as its \<^verbatim>\<open>__context__\<close>) when \<open>e\<close> derives from
  \<^verbatim>\<open>Exception\<close> and its text contains \<^verbatim>\<open>200\<close>, and \<open>e\<close> itself otherwise: when its text
  lacks \<^verbatim>\<open>200\<close>, and when \<open>e\<close> does not derive from \<^verbatim>\<open>Exception\<close>, whatever its text.
\<close>

theorem unserializable_payload:
  assumes "dumps body = Inl e"
  shows "(\<exists>x. fst (publish_body client dumps body project_id topic s) = Inl x)
       \<and> filter is_CallPublish (snd (snd (publish_body client dumps body project_id topic s))) = []
       \<and> (\<forall>tp s1. topic_path client project_id topic s = (Inr tp, s1) \<longrightarrow>
            fst (publish_body client dumps body project_id topic s)
              = Inl (if is_Exception e \<and> py_in (lit ''200'') (exn_str e)
                     then Exn ''RecoverableError'' True [] (Some e) else e))"
  using assms
  by (auto simp: publish_body_def publish_body_try_def Let_def raised_RecoverableError
      split: prod.splits sum.splits)

theorem unserializable_payload_witness:
  "json_dumps (PDict [(PStr (lit ''when''), PObject ''datetime'')])
     = Inl (TypeError (lit ''Object of type datetime is not JSON serializable''))
   \<and> publish_body bus_client json_dumps (PDict [(PStr (lit ''when''), PObject ''datetime'')]) proj1 logs []
     = (Inl (TypeError (lit ''Object of type datetime is not JSON serializable'')), [],
        [CallTopicPath proj1 logs])
   \<and> fst (publish_body bus_client json_dumps (PDict [(PStr (lit ''code''), PObject ''Http200'')]) proj1 logs [])
     = Inl (Exn ''RecoverableError'' True []
              (Some (TypeError (lit ''Object of type Http200 is not JSON serializable''))))
   \<and> json_dumps raising_payload = Inl SystemExit_200
   \<and> fst (publish_body bus_client json_dumps raising_payload proj1 logs []) = Inl SystemExit_200"
  using unserializable_payload [of json_dumps "PDict [(PStr (lit ''when''), PObject ''datetime'')]"
      "TypeError (lit ''Object of type datetime is not JSON serializable'')" bus_client proj1 logs "[]"]
    unserializable_payload [of json_dumps raising_payload SystemExit_200 bus_client proj1 logs "[]"]
  by (simp add: publish_body_def publish_body_try_def bus_client_def TypeError_def
      RecoverableError_def raise_in_handler_def raising_payload_def SystemExit_200_def lit_def)

text \<open>
  Claim C9 as stated fails for an exception outside \<^verbatim>\<open>Exception\<close>: a payload whose
  \<^verbatim>\<open>items()\<close> raises \<^verbatim>\<open>SystemExit(200)\<close> is not JSON-serializable, the text of the error
  contains \<^verbatim>\<open>200\<close>, and \<^verbatim>\<open>publish_body\<close> raises the \<^verbatim>\<open>SystemExit\<close>, not a
  \<^verbatim>\<open>RecoverableError\<close>.
\<close>

theorem unserializable_SystemExit_200_counterexample:
  "json_dumps raising_payload = Inl SystemExit_200
   \<and> py_in (lit ''200'') (exn_str SystemExit_200)
   \<and> fst (publish_body bus_client json_dumps raising_payload proj1 logs []) = Inl SystemExit_200
   \<and> exn_class SystemExit_200 \<noteq> ''RecoverableError''"
  by (simp add: publish_body_def publish_body_try_def bus_client_def raising_payload_def
      SystemExit_200_def lit_def)

section \<open>Base64: decoding undoes encoding\<close>

lemma b2a_values:
  "map b2a [0..<64] = map (\<lambda>i. of_nat (b2a_code i)) [0..<64]"
  by (simp add: b2a_def b2a_code_def table_b2a_base64_def
      upt_rec [of _ "numeral _"] upt_rec [of _ "Suc _"])

lemma b2a_eq: "i < 64 \<Longrightarrow> b2a i = of_nat (b2a_code i)"
  using b2a_values by (simp only: map_eq_conv) simp

lemma unat_of_nat_byte: "x < 256 \<Longrightarrow> unat (of_nat x :: byte) = x"
  by (simp add: unat_of_nat)

lemma of_nat_byte_eq_iff:
  assumes "n < 256"
  shows "(of_nat n :: byte) = w \<longleftrightarrow> n = unat w"
proof
  assume "of_nat n = w"
  then have "unat w = unat (of_nat n :: byte)" by simp
  with assms show "n = unat w" by (simp add: unat_of_nat_byte)
next
  assume "n = unat w"
  then show "(of_nat n :: byte) = w" by simp
qed

lemma b2a_code_less: "i < 64 \<Longrightarrow> b2a_code i < 123"
  by (auto simp: b2a_code_def)

lemma translation_id:
  "w \<noteq> 45 \<Longrightarrow> w \<noteq> 95 \<Longrightarrow> urlsafe_decode_translation (urlsafe_encode_translation w) = w"
  by (simp add: urlsafe_decode_translation_def urlsafe_encode_translation_def)

lemma alphabet_inverse:
  assumes "i < 64"
  shows "table_a2b_base64 (urlsafe_decode_translation (urlsafe_encode_translation (b2a i))) = Some i"
    and "urlsafe_decode_translation (urlsafe_encode_translation (b2a i)) \<noteq> BASE64_PAD"
    and "unat (urlsafe_encode_translation (b2a i)) < 128"
proof -
  define c where "c = b2a_code i"
  have c: "c < 256" "c \<noteq> 45" "c \<noteq> 95" "c \<noteq> 61" "c < 123"
    using assms by (auto simp: c_def b2a_code_def)
  have inv: "(if 65 \<le> c \<and> c \<le> 90 then Some (c - 65)
      else if 97 \<le> c \<and> c \<le> 122 then Some (c - 71)
      else if 48 \<le> c \<and> c \<le> 57 then Some (c + 4)
      else if c = 43 then Some 62 else if c = 47 then Some 63 else None) = Some i"
    using assms by (auto simp: c_def b2a_code_def)
  have b: "b2a i = of_nat c"
    using assms by (simp add: b2a_eq c_def)
  note u = unat_of_nat_byte [OF c(1)]
  note e = of_nat_byte_eq_iff [OF c(1)]
  have ne: "(of_nat c :: byte) \<noteq> 45" "(of_nat c :: byte) \<noteq> 95" "(of_nat c :: byte) \<noteq> 61"
    using c by (simp_all add: e)
  have t: "urlsafe_decode_translation (urlsafe_encode_translation (b2a i)) = of_nat c"
    unfolding b by (rule translation_id [OF ne(1,2)])
  show "table_a2b_base64 (urlsafe_decode_translation (urlsafe_encode_translation (b2a i))) = Some i"
    unfolding t table_a2b_base64_def u Let_def by (rule inv)
  show "urlsafe_decode_translation (urlsafe_encode_translation (b2a i)) \<noteq> BASE64_PAD"
    unfolding t BASE64_PAD_def by (rule ne(3))
  have "unat (urlsafe_encode_translation (of_nat c :: byte)) = (if c = 43 then 45 else if c = 47 then 95 else c)"
    by (simp add: urlsafe_encode_translation_def e u)
  with c(5) show "unat (urlsafe_encode_translation (b2a i)) < 128"
    unfolding b by simp
qed

lemma emit_Inr: "emit x (Inr xs) = Inr (x # xs)"
  by (simp add: emit_def)

lemma loop_data_char:
  assumes "i < 64"
  shows "a2b_base64_loop q l p n (urlsafe_decode_translation (urlsafe_encode_translation (b2a i)) # rest)
     = (if q = 0 then a2b_base64_loop 1 i 0 n rest
        else if q = 1 then emit (of_nat (l * 4 + i div 16)) (a2b_base64_loop 2 (i mod 16) 0 (n + 1) rest)
        else if q = 2 then emit (of_nat (l * 16 + i div 4)) (a2b_base64_loop 3 (i mod 4) 0 (n + 1) rest)
        else emit (of_nat (l * 64 + i)) (a2b_base64_loop 0 0 0 (n + 1) rest))"
  using alphabet_inverse(1,2) [OF assms] by simp

lemma loop_pad:
  "a2b_base64_loop q l p n (urlsafe_decode_translation (urlsafe_encode_translation BASE64_PAD) # rest)
     = (if 2 \<le> q \<and> 4 \<le> q + (p + 1) then Inr []
        else a2b_base64_loop q l (if 2 \<le> q then p + 1 else p) n rest)"
  by (simp add: urlsafe_decode_translation_def urlsafe_encode_translation_def BASE64_PAD_def)

lemma loop_end: "a2b_base64_loop 0 l p n [] = Inr []"
  by simp

lemma loop_quad:
  assumes "i0 < 64" "i1 < 64" "i2 < 64" "i3 < 64"
  shows "a2b_base64_loop 0 l p n
           (urlsafe_decode_translation (urlsafe_encode_translation (b2a i0))
            # urlsafe_decode_translation (urlsafe_encode_translation (b2a i1))
            # urlsafe_decode_translation (urlsafe_encode_translation (b2a i2))
            # urlsafe_decode_translation (urlsafe_encode_translation (b2a i3)) # rest)
         = emit (of_nat (i0 * 4 + i1 div 16))
             (emit (of_nat (i1 mod 16 * 16 + i2 div 4))
                (emit (of_nat (i2 mod 4 * 64 + i3)) (a2b_base64_loop 0 0 0 (n + 1 + 1 + 1) rest)))"
  by (simp add: loop_data_char assms del: a2b_base64_loop.simps)

lemma loop_pair:
  assumes "i0 < 64" "i1 < 64"
  shows "a2b_base64_loop 0 l p n
           [urlsafe_decode_translation (urlsafe_encode_translation (b2a i0)),
            urlsafe_decode_translation (urlsafe_encode_translation (b2a i1)),
            urlsafe_decode_translation (urlsafe_encode_translation BASE64_PAD),
            urlsafe_decode_translation (urlsafe_encode_translation BASE64_PAD)]
         = Inr [of_nat (i0 * 4 + i1 div 16)]"
  by (simp add: loop_data_char loop_pad assms emit_Inr del: a2b_base64_loop.simps)

lemma loop_triple:
  assumes "i0 < 64" "i1 < 64" "i2 < 64"
  shows "a2b_base64_loop 0 l p n
           [urlsafe_decode_translation (urlsafe_encode_translation (b2a i0)),
            urlsafe_decode_translation (urlsafe_encode_translation (b2a i1)),
            urlsafe_decode_translation (urlsafe_encode_translation (b2a i2)),
            urlsafe_decode_translation (urlsafe_encode_translation BASE64_PAD)]
         = Inr [of_nat (i0 * 4 + i1 div 16), of_nat (i1 mod 16 * 16 + i2 div 4)]"
  by (simp add: loop_data_char loop_pad assms emit_Inr del: a2b_base64_loop.simps)

lemma div_small:
  fixes b :: nat
  assumes "b < 256"
  shows "b div 4 < 64" "b div 16 < 16" "b div 64 < 4"
  using assms by (simp_all add: less_mult_imp_div_less)

lemma sextets:
  fixes a b c :: nat
  shows "a < 256 \<Longrightarrow> a div 4 < 64" "a mod 4 * 16 < 64" "b < 256 \<Longrightarrow> a mod 4 * 16 + b div 16 < 64"
    "b mod 16 * 4 < 64" "c < 256 \<Longrightarrow> b mod 16 * 4 + c div 64 < 64" "c mod 64 < 64"
  by (auto simp: less_mult_imp_div_less)

lemma regroup:
  fixes a b c :: nat
  assumes "b < 256" "c < 256"
  shows "a div 4 * 4 + (a mod 4 * 16 + b div 16) div 16 = a"
    and "(a mod 4 * 16 + b div 16) mod 16 * 16 + (b mod 16 * 4 + c div 64) div 4 = b"
    and "(b mod 16 * 4 + c div 64) mod 4 * 64 + c mod 64 = c"
    and "a div 4 * 4 + (a mod 4 * 16) div 16 = a"
    and "(a mod 4 * 16 + b div 16) mod 16 * 16 + (b mod 16 * 4) div 4 = b"
  using div_small(2) [OF assms(1)] div_small(3) [OF assms(2)] by simp_all

lemma unat_byte_less: "unat (b :: byte) < 256"
  using unsigned_less [of b] by simp

lemma word_of_unat: "(of_nat (unat (b :: byte)) :: byte) = b"
  by simp

lemma group1:
  "a2b_base64_loop 0 l p n
     (map urlsafe_decode_translation (map urlsafe_encode_translation (b2a_base64 [a]))) = Inr [a]"
proof -
  note ua = unat_byte_less [of a]
  have "a2b_base64_loop 0 l p n
          (map urlsafe_decode_translation (map urlsafe_encode_translation (b2a_base64 [a])))
        = Inr [of_nat (unat a div 4 * 4 + (unat a mod 4 * 16) div 16)]"
    unfolding b2a_base64.simps list.map
    by (rule loop_pair [OF sextets(1) [OF ua] sextets(2)])
  then show ?thesis
    by (simp only: regroup(4) [OF ua ua] word_of_unat)
qed

lemma group2:
  "a2b_base64_loop 0 l p n
     (map urlsafe_decode_translation (map urlsafe_encode_translation (b2a_base64 [a, b]))) = Inr [a, b]"
proof -
  note ua = unat_byte_less [of a] and ub = unat_byte_less [of b]
  have "a2b_base64_loop 0 l p n
          (map urlsafe_decode_translation (map urlsafe_encode_translation (b2a_base64 [a, b])))
        = Inr [of_nat (unat a div 4 * 4 + (unat a mod 4 * 16 + unat b div 16) div 16),
               of_nat ((unat a mod 4 * 16 + unat b div 16) mod 16 * 16 + (unat b mod 16 * 4) div 4)]"
    unfolding b2a_base64.simps list.map
    by (rule loop_triple [OF sextets(1) [OF ua] sextets(3) [OF ub] sextets(4)])
  then show ?thesis
    by (simp only: regroup(1) [OF ub ub] regroup(5) [OF ub ub] word_of_unat)
qed

lemma group3:
  "a2b_base64_loop 0 l p n
     (map urlsafe_decode_translation (map urlsafe_encode_translation (b2a_base64 (a # b # c # rest))))
   = emit a (emit b (emit c (a2b_base64_loop 0 0 0 (n + 1 + 1 + 1)
       (map urlsafe_decode_translation (map urlsafe_encode_translation (b2a_base64 rest))))))"
proof -
  note ua = unat_byte_less [of a] and ub = unat_byte_less [of b] and uc = unat_byte_less [of c]
  have "a2b_base64_loop 0 l p n
     (map urlsafe_decode_translation (map urlsafe_encode_translation (b2a_base64 (a # b # c # rest))))
   = emit (of_nat (unat a div 4 * 4 + (unat a mod 4 * 16 + unat b div 16) div 16))
       (emit (of_nat ((unat a mod 4 * 16 + unat b div 16) mod 16 * 16
                       + (unat b mod 16 * 4 + unat c div 64) div 4))
          (emit (of_nat ((unat b mod 16 * 4 + unat c div 64) mod 4 * 64 + unat c mod 64))
             (a2b_base64_loop 0 0 0 (n + 1 + 1 + 1)
                (map urlsafe_decode_translation (map urlsafe_encode_translation (b2a_base64 rest))))))"
    unfolding b2a_base64.simps list.map map_append append.simps
    by (rule loop_quad [OF sextets(1) [OF ua] sextets(3) [OF ub] sextets(5) [OF uc] sextets(6)])
  then show ?thesis
    by (simp only: regroup(1-3) [OF ub uc] word_of_unat)
qed

lemma a2b_b2a:
  "a2b_base64_loop 0 l p n
     (map urlsafe_decode_translation (map urlsafe_encode_translation (b2a_base64 bs))) = Inr bs"
proof (induction bs arbitrary: l p n rule: b2a_base64.induct)
  case 1
  show ?case by simp
next
  case (2 a)
  show ?case by (rule group1)
next
  case (3 a b)
  show ?case by (rule group2)
next
  case (4 a b c rest)
  show ?case by (simp only: group3 "4.IH" emit_Inr)
qed

lemma pad_ascii: "unat (urlsafe_encode_translation BASE64_PAD) < 128"
  by (simp add: urlsafe_encode_translation_def BASE64_PAD_def)

lemma urlsafe_b64encode_ascii: "list_all (\<lambda>b. unat b < 128) (urlsafe_b64encode bs)"
proof (induction bs rule: b2a_base64.induct)
  case 1
  show ?case by (simp add: urlsafe_b64encode_def)
next
  case (2 a)
  show ?case
    by (simp add: urlsafe_b64encode_def alphabet_inverse(3) sextets unat_byte_less pad_ascii)
next
  case (3 a b)
  show ?case
    by (simp add: urlsafe_b64encode_def alphabet_inverse(3) sextets unat_byte_less pad_ascii)
next
  case (4 a b c rest)
  then show ?case
    by (simp add: urlsafe_b64encode_def alphabet_inverse(3) sextets unat_byte_less)
qed

lemma ascii_decode_from_ok:
  "list_all (\<lambda>b. unat b < 128) bs \<Longrightarrow> ascii_decode_from pos bs = Inr (map unat bs)"
  by (induction bs arbitrary: pos) (simp_all add: emit_Inr)

lemma ascii_encode_from_ok:
  "list_all (\<lambda>b. unat b < 128) bs \<Longrightarrow> ascii_encode_from pos (map unat bs) = Inr bs"
  by (induction bs arbitrary: pos) (simp_all add: emit_Inr)

lemma bytes_from_decode_data_ok:
  "list_all (\<lambda>b. unat b < 128) bs \<Longrightarrow> bytes_from_decode_data (map unat bs) = Inr bs"
  by (simp add: bytes_from_decode_data_def ascii_encode_from_ok)

lemma urlsafe_b64_roundtrip:
  "bytes_decode_ascii (urlsafe_b64encode bs) = Inr (map unat (urlsafe_b64encode bs))"
  "urlsafe_b64decode (map unat (urlsafe_b64encode bs)) = Inr bs"
proof -
  note a = urlsafe_b64encode_ascii [of bs]
  show "bytes_decode_ascii (urlsafe_b64encode bs) = Inr (map unat (urlsafe_b64encode bs))"
    by (simp add: bytes_decode_ascii_def ascii_decode_from_ok [OF a])
  show "urlsafe_b64decode (map unat (urlsafe_b64encode bs)) = Inr bs"
    by (simp add: urlsafe_b64decode_def bytes_from_decode_data_ok [OF a] a2b_base64_def)
      (simp only: urlsafe_b64encode_def a2b_b2a)
qed

section \<open>UTF-8: decoding undoes encoding\<close>

lemma split64: fixes c :: nat shows "c = c div 64 * 64 + c mod 64"
  by simp

lemma split4096: fixes c :: nat shows "c = c div 4096 * 4096 + c div 64 mod 64 * 64 + c mod 64"
proof -
  define d q r l where "d = c div 64" and "q = d div 64" and "r = d mod 64" and "l = c mod 64"
  have "c div 4096 = q"
    by (simp add: q_def d_def div_mult2_eq [symmetric])
  moreover have "d = q * 64 + r"
    by (simp add: q_def r_def)
  moreover have "c = d * 64 + l"
    by (simp add: d_def l_def)
  ultimately have "c = c div 4096 * 4096 + r * 64 + l"
    by simp
  then show ?thesis
    by (simp only: r_def d_def l_def)
qed

lemma split262144:
  fixes c :: nat
  shows "c = c div 262144 * 262144 + c div 4096 mod 64 * 4096 + c div 64 mod 64 * 64 + c mod 64"
proof -
  define d q r where "d = c div 4096" and "q = d div 64" and "r = d mod 64"
  have "c div 262144 = q"
    by (simp add: q_def d_def div_mult2_eq [symmetric])
  moreover have "d = q * 64 + r"
    by (simp add: q_def r_def)
  moreover have "c = d * 4096 + c div 64 mod 64 * 64 + c mod 64"
    unfolding d_def by (rule split4096)
  ultimately have "c = c div 262144 * 262144 + r * 4096 + c div 64 mod 64 * 64 + c mod 64"
    by simp
  then show ?thesis
    by (simp only: r_def d_def)
qed

lemma utf8_1:
  assumes "c < 0x80"
  shows "utf8_decode_from pos (of_nat c # rest) = emit c (utf8_decode_from (pos + 1) rest)"
  using assms by (simp add: unat_of_nat_byte)

lemma utf8_2:
  assumes "l < 64" and c: "c = h * 64 + l" and "0x80 \<le> c" "c < 0x800"
  shows "utf8_decode_from pos (of_nat (0xC0 + h) # of_nat (0x80 + l) # rest)
         = emit c (utf8_decode_from (pos + 2) rest)"
proof -
  have h: "2 \<le> h" "h < 32"
    using assms by simp_all
  have u: "unat (of_nat (0xC0 + h) :: byte) = 0xC0 + h" "unat (of_nat (0x80 + l) :: byte) = 0x80 + l"
    using h assms(1) by (simp_all add: unat_of_nat_byte del: of_nat_add)
  show ?thesis
    using h assms(1) by (simp add: u is_cont_def c del: of_nat_add)
qed

lemma utf8_3:
  assumes "m < 64" "l < 64" and c: "c = h * 4096 + m * 64 + l"
    and "0x800 \<le> c" "c < 0x10000" "\<not> is_surrogate c"
  shows "utf8_decode_from pos (of_nat (0xE0 + h) # of_nat (0x80 + m) # of_nat (0x80 + l) # rest)
         = emit c (utf8_decode_from (pos + 3) rest)"
proof -
  have h: "h < 16"
    using assms by simp
  have second: "m < 32 \<Longrightarrow> h \<noteq> 0" "\<not> m < 32 \<Longrightarrow> h \<noteq> 13"
    using assms by (auto simp: is_surrogate_def)
  have u: "unat (of_nat (0xE0 + h) :: byte) = 0xE0 + h" "unat (of_nat (0x80 + m) :: byte) = 0x80 + m"
    "unat (of_nat (0x80 + l) :: byte) = 0x80 + l"
    using h assms(1,2) by (simp_all add: unat_of_nat_byte del: of_nat_add)
  show ?thesis
    using h assms(1,2) second
    by (cases "m < 32") (simp_all add: u is_cont_def bad_second3_def c Let_def add.assoc del: of_nat_add)
qed

lemma utf8_4:
  assumes "k < 64" "m < 64" "l < 64" and c: "c = h * 262144 + k * 4096 + m * 64 + l"
    and "0x10000 \<le> c" "c < 0x110000"
  shows "utf8_decode_from pos
           (of_nat (0xF0 + h) # of_nat (0x80 + k) # of_nat (0x80 + m) # of_nat (0x80 + l) # rest)
         = emit c (utf8_decode_from (pos + 4) rest)"
proof -
  have h: "h < 5"
    using assms by simp
  have second: "k < 16 \<Longrightarrow> h \<noteq> 0" "\<not> k < 16 \<Longrightarrow> h \<noteq> 4"
    using assms by auto
  have u: "unat (of_nat (0xF0 + h) :: byte) = 0xF0 + h" "unat (of_nat (0x80 + k) :: byte) = 0x80 + k"
    "unat (of_nat (0x80 + m) :: byte) = 0x80 + m" "unat (of_nat (0x80 + l) :: byte) = 0x80 + l"
    using h assms(1,2,3) by (simp_all add: unat_of_nat_byte del: of_nat_add)
  show ?thesis
    using h assms(1,2,3) second
    by (cases "k < 16") (simp_all add: u is_cont_def bad_second4_def c Let_def add.assoc del: of_nat_add)
qed

lemma utf8_decode_char:
  assumes "c < 0x110000" "\<not> is_surrogate c"
  shows "utf8_decode_from pos (utf8_char c @ rest)
         = emit c (utf8_decode_from (pos + length (utf8_char c)) rest)"
proof -
  consider "c < 0x80" | "0x80 \<le> c" "c < 0x800" | "0x800 \<le> c" "c < 0x10000" | "0x10000 \<le> c"
    by linarith
  then show ?thesis
  proof cases
    case 1
    have e: "utf8_char c = [of_nat c]"
      using 1 by (simp add: utf8_char_def)
    have len: "length (utf8_char c) = 1"
      by (simp add: e)
    show ?thesis
      unfolding len unfolding e append.simps by (rule utf8_1 [OF 1])
  next
    case 2
    have e: "utf8_char c = [of_nat (0xC0 + c div 64), of_nat (0x80 + c mod 64)]"
      using 2 by (simp add: utf8_char_def del: of_nat_add)
    have m: "c mod 64 < 64"
      by simp
    have len: "length (utf8_char c) = 2"
      by (simp add: e)
    show ?thesis
      unfolding len unfolding e append.simps by (rule utf8_2 [OF m split64 [of c] 2])
  next
    case 3
    have e: "utf8_char c = [of_nat (0xE0 + c div 4096), of_nat (0x80 + c div 64 mod 64),
        of_nat (0x80 + c mod 64)]"
      using 3 by (simp add: utf8_char_def del: of_nat_add)
    have m: "c div 64 mod 64 < 64" "c mod 64 < 64"
      by simp_all
    have len: "length (utf8_char c) = 3"
      by (simp add: e)
    show ?thesis
      unfolding len unfolding e append.simps by (rule utf8_3 [OF m split4096 [of c] 3 assms(2)])
  next
    case 4
    have e: "utf8_char c = [of_nat (0xF0 + c div 262144), of_nat (0x80 + c div 4096 mod 64),
        of_nat (0x80 + c div 64 mod 64), of_nat (0x80 + c mod 64)]"
      using 4 by (simp add: utf8_char_def del: of_nat_add)
    have m: "c div 4096 mod 64 < 64" "c div 64 mod 64 < 64" "c mod 64 < 64"
      by simp_all
    have len: "length (utf8_char c) = 4"
      by (simp add: e)
    show ?thesis
      unfolding len unfolding e append.simps by (rule utf8_4 [OF m split262144 [of c] 4 assms(1)])
  qed
qed

lemma str_encode_from_valid:
  "valid_text v \<Longrightarrow> str_encode_from i v = Inr (concat (map utf8_char v))"
  by (induction v arbitrary: i) (simp_all add: valid_text_def)

lemma utf8_decode_concat:
  "valid_text v \<Longrightarrow> utf8_decode_from pos (concat (map utf8_char v)) = Inr v"
proof (induction v arbitrary: pos)
  case Nil
  show ?case by simp
next
  case (Cons c v)
  then have c: "c < 0x110000" "\<not> is_surrogate c" and v: "valid_text v"
    by (simp_all add: valid_text_def)
  show ?case
    by (simp only: list.map concat.simps utf8_decode_char [OF c] Cons.IH [OF v] emit_Inr)
qed

section \<open>The claim about \<^verbatim>\<open>compat_urlsafe_b64encode\<close>\<close>

lemma str_encode_valid: "valid_text v \<Longrightarrow> str_encode v = Inr (concat (map utf8_char v))"
  by (simp add: str_encode_def str_encode_from_valid)

lemma compat_python3:
  assumes "3 \<le> major" and "valid_text v"
  shows "compat_urlsafe_b64encode major v
         = Inr (map unat (urlsafe_b64encode (concat (map utf8_char v))))"
  using assms(1)
  by (simp add: compat_urlsafe_b64encode_def str_encode_valid [OF assms(2)] urlsafe_b64_roundtrip(1))

lemma decode_back_encoded:
  assumes "valid_text v"
  shows "decode_back (map unat (urlsafe_b64encode (concat (map utf8_char v)))) = Inr v"
  by (simp add: decode_back_def urlsafe_b64_roundtrip(2) bytes_decode_utf8_def
      utf8_decode_concat [OF assms])

lemma str_encode_from_surrogate:
  "\<exists>c\<in>set v. is_surrogate c \<Longrightarrow>
   \<exists>e. str_encode_from i v = Inl e \<and> exn_class e = ''UnicodeEncodeError''"
proof (induction v arbitrary: i)
  case Nil
  then show ?case by simp
next
  case (Cons c v)
  show ?case
  proof (cases "is_surrogate c")
    case True
    then show ?thesis by (simp add: UnicodeEncodeError_def Let_def)
  next
    case False
    with Cons.prems have "\<exists>c\<in>set v. is_surrogate c" by simp
    from Cons.IH [OF this, of "Suc i"] False show ?thesis by auto
  qed
qed

lemma sample_utf8:
  "concat (map utf8_char sample_text) = [104, 195, 169, 226, 130, 172, 240, 159, 152, 128]"
  by (simp add: sample_text_def utf8_char_def)

lemma sample_b64:
  "map unat (urlsafe_b64encode [104, 195, 169, 226, 130, 172, 240, 159, 152, 128]) = sample_encoded"
  by (simp add: urlsafe_b64encode_def b2a_def table_b2a_base64_def urlsafe_encode_translation_def
      BASE64_PAD_def sample_encoded_def lit_def)

text \<open>
  Claim C10, as amended. On Python 3, for a string \<open>v\<close> of code points below U+110000
  without surrogates, \<^verbatim>\<open>compat_urlsafe_b64encode(v)\<close> returns a string \<open>r\<close> such that
  \<^verbatim>\<open>base64.urlsafe_b64decode(r).decode('utf-8')\<close> is \<open>v\<close>; hence the function is injective
  on such strings. For a string that holds a surrogate it raises \<^verbatim>\<open>UnicodeEncodeError\<close>.
\<close>

theorem compat_urlsafe_b64encode_roundtrip:
  assumes "3 \<le> major"
  shows "(valid_text v \<longrightarrow>
            (\<exists>r. compat_urlsafe_b64encode major v = Inr r \<and> decode_back r = Inr v))
       \<and> (valid_text v \<and> valid_text w
            \<and> compat_urlsafe_b64encode major v = compat_urlsafe_b64encode major w \<longrightarrow> v = w)
       \<and> ((\<exists>c\<in>set v. is_surrogate c) \<longrightarrow>
            (\<exists>e. compat_urlsafe_b64encode major v = Inl e \<and> exn_class e = ''UnicodeEncodeError''))"
proof (intro conjI impI)
  assume "valid_text v"
  with assms show "\<exists>r. compat_urlsafe_b64encode major v = Inr r \<and> decode_back r = Inr v"
    by (simp add: compat_python3 decode_back_encoded)
next
  assume a: "valid_text v \<and> valid_text w
    \<and> compat_urlsafe_b64encode major v = compat_urlsafe_b64encode major w"
  then have v: "valid_text v" and w: "valid_text w"
    and eq: "compat_urlsafe_b64encode major v = compat_urlsafe_b64encode major w"
    by simp_all
  have r: "map unat (urlsafe_b64encode (concat (map utf8_char v)))
      = map unat (urlsafe_b64encode (concat (map utf8_char w)))"
    using eq by (simp only: compat_python3 [OF assms v] compat_python3 [OF assms w] sum.inject)
  have "Inr v = decode_back (map unat (urlsafe_b64encode (concat (map utf8_char v))))"
    by (simp only: decode_back_encoded [OF v])
  also have "\<dots> = decode_back (map unat (urlsafe_b64encode (concat (map utf8_char w))))"
    by (simp only: r)
  also have "\<dots> = Inr w"
    by (simp only: decode_back_encoded [OF w])
  finally show "v = w"
    by (simp only: sum.inject)
next
  assume "\<exists>c\<in>set v. is_surrogate c"
  from str_encode_from_surrogate [OF this, of 0] assms
  show "\<exists>e. compat_urlsafe_b64encode major v = Inl e \<and> exn_class e = ''UnicodeEncodeError''"
    by (auto simp: compat_urlsafe_b64encode_def str_encode_def)
qed

theorem compat_urlsafe_b64encode_roundtrip_witness:
  "(3 :: nat) \<le> 3 \<and> valid_text sample_text
   \<and> compat_urlsafe_b64encode 3 sample_text = Inr sample_encoded
   \<and> decode_back sample_encoded = Inr sample_text
   \<and> (\<exists>c\<in>set lone_surrogate. is_surrogate c)"
proof -
  have v: "valid_text sample_text"
    by (simp add: valid_text_def sample_text_def is_surrogate_def)
  have e: "compat_urlsafe_b64encode 3 sample_text = Inr sample_encoded"
    by (simp add: compat_python3 [OF _ v] sample_utf8 sample_b64)
  have s: "\<exists>c\<in>set lone_surrogate. is_surrogate c"
    by (simp add: lone_surrogate_def is_surrogate_def)
  from compat_urlsafe_b64encode_roundtrip [of 3 sample_text sample_text] v e s
  show ?thesis by simp
qed

text \<open>
  Claim C10 as stated fails: the string \<^verbatim>\<open>'\ud800'\<close> is a Python 3 \<^verbatim>\<open>str\<close>, and
  \<^verbatim>\<open>compat_urlsafe_b64encode\<close> raises on it instead of returning an encoding.
\<close>

theorem compat_urlsafe_b64encode_surrogate_counterexample:
  "compat_urlsafe_b64encode 3 lone_surrogate = Inl (UnicodeEncodeError 0 lone_surrogate)
   \<and> exn_class (UnicodeEncodeError 0 lone_surrogate) = ''UnicodeEncodeError''"
  by (simp add: compat_urlsafe_b64encode_def str_encode_def lone_surrogate_def is_surrogate_def
      UnicodeEncodeError_def Let_def)

end
